theory Spec2Isabelle
  imports Main
begin

section \<open>hue-cli: a shallow embedding of \<open>hue-cli.js\<close>\<close>

text \<open>
  The program is one script. Its synchronous part (option loop, config load, command
  switch) and each of its callbacks are embedded as functions that return the list of
  effects they perform; the replies of the bridge, the file system and standard input
  are arguments. A character is one code unit of a JavaScript string, below 256; the three
  symbols above that range occur in printed lines only and are written as their UTF-8
  bytes. A JavaScript number is an \<open>int option\<close>, \<open>None\<close> being \<open>NaN\<close>: every
  number the script computes is an integer or \<open>NaN\<close> (the one product with
  \<open>254 / 100\<close> goes straight into \<open>Math.round\<close>), and on integers below
  \<open>2\<^sup>5\<^sup>3\<close> the sums and differences of doubles are exact. Minus zero is not told
  from zero.
\<close>

subsection \<open>JavaScript values and coercions\<close>

type_synonym jsnum = "int option"

text \<open>A variable such as \<open>bri\<close> holds a number or a string, depending on the path taken.\<close>

datatype prim = N jsnum | S string

definition is_digit :: "char \<Rightarrow> bool" where
  "is_digit c = (c \<in> set ''0123456789'')"

definition digit_val :: "char \<Rightarrow> nat" where
  "digit_val c = of_char c - 48"

definition digit_char :: "nat \<Rightarrow> char" where
  "digit_char d = ''0123456789'' ! d"

text \<open>Decimal value of a string of digits, most significant digit first.\<close>

definition dec_val :: "string \<Rightarrow> nat" where
  "dec_val ds = foldl (\<lambda>a c. 10 * a + digit_val c) 0 ds"

text \<open>
  \<open>ToNumber\<close> on a string, for the strings the script applies it to: an optional sign
  followed by decimal digits. Any other string is \<open>NaN\<close> here (the script never
  coerces the empty string, blanks, hexadecimal or exponent literals).
\<close>

definition str_to_number :: "string \<Rightarrow> jsnum" where
  "str_to_number s =
     (case s of
        [] \<Rightarrow> None
      | c # cs \<Rightarrow>
          if c = CHR ''-'' then (if cs \<noteq> [] \<and> list_all is_digit cs then Some (- int (dec_val cs)) else None)
          else if c = CHR ''+'' then (if cs \<noteq> [] \<and> list_all is_digit cs then Some (int (dec_val cs)) else None)
          else if list_all is_digit s then Some (int (dec_val s)) else None)"

text \<open>\<open>ToString\<close> on an integer: its decimal digits, with a minus sign below zero.\<close>

fun digits_of :: "nat \<Rightarrow> string" where
  "digits_of n = (if n < 10 then [digit_char n] else digits_of (n div 10) @ [digit_char (n mod 10)])"

declare digits_of.simps [simp del]

definition int_to_string :: "int \<Rightarrow> string" where
  "int_to_string i = (if i < 0 then CHR ''-'' # digits_of (nat (- i)) else digits_of (nat i))"

definition to_number :: "prim \<Rightarrow> jsnum" where
  "to_number v = (case v of N x \<Rightarrow> x | S s \<Rightarrow> str_to_number s)"

definition to_string :: "prim \<Rightarrow> string" where
  "to_string v = (case v of N None \<Rightarrow> ''NaN'' | N (Some i) \<Rightarrow> int_to_string i | S s \<Rightarrow> s)"

definition num2 :: "(int \<Rightarrow> int \<Rightarrow> int) \<Rightarrow> jsnum \<Rightarrow> jsnum \<Rightarrow> jsnum" where
  "num2 f a b = (case a of None \<Rightarrow> None | Some x \<Rightarrow> (case b of None \<Rightarrow> None | Some y \<Rightarrow> Some (f x y)))"

text \<open>\<open>a + b\<close>: numeric addition of two numbers, string concatenation as soon as one
  operand is a string.\<close>

definition js_add :: "prim \<Rightarrow> prim \<Rightarrow> prim" where
  "js_add a b =
     (case a of
        N x \<Rightarrow> (case b of N y \<Rightarrow> N (num2 (+) x y) | S t \<Rightarrow> S (to_string a @ t))
      | S s \<Rightarrow> S (s @ to_string b))"

text \<open>\<open>a - b\<close>: both operands go through \<open>ToNumber\<close>.\<close>

definition js_sub :: "prim \<Rightarrow> prim \<Rightarrow> prim" where
  "js_sub a b = N (num2 (-) (to_number a) (to_number b))"

definition math_max :: "prim \<Rightarrow> prim \<Rightarrow> prim" where
  "math_max a b = N (num2 max (to_number a) (to_number b))"

definition math_min :: "prim \<Rightarrow> prim \<Rightarrow> prim" where
  "math_min a b = N (num2 min (to_number a) (to_number b))"

text \<open>
  \<open>Math.round(num * (254 / 100))\<close> for a digit string \<open>num\<close>: \<open>Math.round\<close> rounds
  halves upwards, so the result is \<open>\<lfloor>(254 n + 50) / 100\<rfloor>\<close>. The product of doubles
  rounds to exactly this for operands of up to 13 digits; on longer operands it can differ
  in the last unit, far outside the range of the clamp that follows.
\<close>

definition round_percent :: "string \<Rightarrow> prim" where
  "round_percent num = N (map_option (\<lambda>n. (n * 254 + 50) div 100) (str_to_number num))"

subsection \<open>Brightness expressions (lines 282 to 310)\<close>

text \<open>
  \<open>s.match(/^([-+=])([0-9]+)(%?)$/)\<close>: the operator, the digits, and whether the
  percent sign is there.
\<close>

definition match_bri :: "string \<Rightarrow> (char \<times> string \<times> bool) option" where
  "match_bri s =
     (case s of
        [] \<Rightarrow> None
      | op # rest \<Rightarrow>
          if op \<notin> set ''-+='' then None
          else let perc = (rest \<noteq> [] \<and> last rest = CHR ''%'');
                   num = (if perc then butlast rest else rest)
               in if num \<noteq> [] \<and> list_all is_digit num then Some (op, num, perc) else None)"

text \<open>The \<open>switch (op)\<close> on the light's current brightness, then the clamp of line 310.\<close>

definition new_bri :: "char \<Rightarrow> string \<Rightarrow> bool \<Rightarrow> int \<Rightarrow> jsnum" where
  "new_bri op num perc cur =
     (let bri = N (Some cur);
          bri = (if op = CHR ''='' then (if perc then round_percent num else S num)
                 else if op = CHR ''+'' then (if perc then js_add bri (round_percent num) else js_add bri (S num))
                 else if op = CHR ''-'' then (if perc then js_sub bri (round_percent num) else js_sub bri (S num))
                 else bri)
      in to_number (math_min (N (Some 254)) (math_max (N (Some 1)) bri)))"

subsection \<open>Hexadecimal colours (lines 480 to 499)\<close>

definition hex_val :: "char \<Rightarrow> nat option" where
  "hex_val c =
     (let k = (of_char c :: nat)
      in if 48 \<le> k \<and> k \<le> 57 then Some (k - 48)
         else if 97 \<le> k \<and> k \<le> 102 then Some (k - 87)
         else if 65 \<le> k \<and> k \<le> 70 then Some (k - 55)
         else None)"

definition is_white :: "char \<Rightarrow> bool" where
  "is_white c = (of_char c \<in> set [9, 10, 11, 12, 13, 32, 160 :: nat])"

text \<open>
  \<open>parseInt(s, 16)\<close>: leading blanks are skipped, a sign is read, a \<open>0x\<close> or \<open>0X\<close>
  prefix is dropped, and the longest run of hexadecimal digits that follows is the value;
  an empty run is \<open>NaN\<close>.
\<close>

definition hex_run :: "string \<Rightarrow> jsnum" where
  "hex_run s =
     (let z = takeWhile (\<lambda>c. hex_val c \<noteq> None) s
      in if z = [] then None
         else Some (int (foldl (\<lambda>a c. 16 * a + (case hex_val c of None \<Rightarrow> 0 | Some d \<Rightarrow> d)) 0 z)))"

definition strip_0x :: "string \<Rightarrow> string" where
  "strip_0x s =
     (case s of
        a # b # rest \<Rightarrow> if a = CHR ''0'' \<and> (b = CHR ''x'' \<or> b = CHR ''X'') then rest else s
      | _ \<Rightarrow> s)"

definition parseInt16 :: "string \<Rightarrow> jsnum" where
  "parseInt16 s =
     (let t = dropWhile is_white s
      in case t of
           [] \<Rightarrow> None
         | c # cs \<Rightarrow>
             if c = CHR ''-'' then map_option uminus (hex_run (strip_0x cs))
             else if c = CHR ''+'' then hex_run (strip_0x cs)
             else hex_run (strip_0x t))"

text \<open>\<open>hex[i]\<close>: the one-character string at index \<open>i\<close>, or \<open>undefined\<close>.\<close>

definition char_at :: "string \<Rightarrow> nat \<Rightarrow> string option" where
  "char_at s i = (if i < length s then Some [s ! i] else None)"

definition str_of :: "string option \<Rightarrow> string" where
  "str_of x = (case x of None \<Rightarrow> ''undefined'' | Some s \<Rightarrow> s)"

definition todec :: "string option \<Rightarrow> string option \<Rightarrow> jsnum" where
  "todec h i = parseInt16 (str_of h @ '''' @ str_of i)"

definition hex2rgb :: "string \<Rightarrow> jsnum \<times> jsnum \<times> jsnum" where
  "hex2rgb hex0 =
     (let hex = (if char_at hex0 0 = Some ''#'' then drop 1 hex0 else hex0)
      in if length hex = 3
         then (todec (char_at hex 0) (char_at hex 0),
               todec (char_at hex 1) (char_at hex 1),
               todec (char_at hex 2) (char_at hex 2))
         else (todec (char_at hex 0) (char_at hex 1),
               todec (char_at hex 2) (char_at hex 3),
               todec (char_at hex 4) (char_at hex 5)))"

subsection \<open>Data of the bridge and of the command line\<close>

text \<open>A JSON value, as \<open>JSON.parse\<close> returns it and as a state patch is built.\<close>

datatype jsval =
    JNull
  | JBool bool
  | JNum jsnum
  | JStr string
  | JArr "jsval list"
  | JObj "(string \<times> jsval) list"

text \<open>The attributes of a light that the script reads: \<open>name\<close>, \<open>state.on\<close>, \<open>state.bri\<close>.\<close>

record light =
  name :: string
  state_on :: bool
  state_bri :: int

text \<open>An error reported by the bridge client: \<open>err.description\<close>, \<open>err.type\<close>.\<close>

record berr =
  description :: string
  err_type :: int

text \<open>The reply of \<open>client.lights\<close>: an object keyed by light id, in key order.\<close>

type_synonym lights = "(string \<times> light) list"

record config =
  host :: "string option"
  username :: "string option"
  colors :: "(string \<times> string) list option"
  aliases :: "(string \<times> string) list option"

text \<open>Every call the script makes on the bridge client library.\<close>

datatype call =
    Client_config
  | Client_lights
  | Client_light string
  | Client_on string
  | Client_off string
  | Client_state string jsval
  | Client_rgb string jsnum jsnum jsnum
  | Client_register
  | Client_rename "string option" "string option"
  | Hue_discover

text \<open>What \<open>JSON.stringify\<close> is applied to before the text goes to \<open>console.log\<close>.\<close>

datatype payload =
    P_null
  | P_err berr
  | P_light string light
  | P_lights lights
  | P_val jsval
  | P_alias "(string \<times> string) list"
  | P_stations "string list"

text \<open>
  The effects of the script. \<open>Stdout\<close> is a line of plain text on standard output
  (\<open>console.log\<close>, \<open>console.info\<close>, \<open>printf\<close>), \<open>Stdout_json\<close> the pretty-printed
  JSON of a value, \<open>Stdout_inspect\<close> a \<open>console.log\<close> of a text followed by an object.
  \<open>Write_file\<close> is \<open>fs.writeFileSync\<close> of the config as JSON, \<open>Create_client\<close> is
  \<open>Hue.createClient\<close> with the host and the username, \<open>Request\<close> a call on the
  client, \<open>Import_latest\<close> the start of the dynamic import of the update checker.
\<close>

datatype event =
    Stdout string
  | Stdout_json payload
  | Stdout_inspect string jsval
  | Stderr string
  | Write_file string config
  | Create_client "string option" "string option"
  | Request call
  | Import_latest

text \<open>
  How a piece of the script ends: \<open>process.exit(code)\<close>, a plain return (the process
  stays alive for the callbacks of the requests it sent), or an exception nobody catches.
\<close>

datatype ending =
    Exit int
  | Return
  | Throw berr
  | Throw_TypeError

text \<open>
  A plain object (the reply of \<open>client.lights\<close>, \<open>config.alias\<close>, \<open>config.colors\<close>,
  the colour table) is the list of its own entries, each key once. Reading a key that is
  not its own finds the member every object inherits from \<open>Object.prototype\<close>, if the
  key names one: a function, or for \<open>__proto__\<close> the prototype itself. All of them are
  truthy and none is a string.
\<close>

definition object_prototype_names :: "string list" where
  "object_prototype_names =
     [''constructor'', ''toString'', ''toLocaleString'', ''valueOf'', ''hasOwnProperty'',
      ''isPrototypeOf'', ''propertyIsEnumerable'', ''__defineGetter__'', ''__defineSetter__'',
      ''__lookupGetter__'', ''__lookupSetter__'', ''__proto__'']"

datatype 'a member = Own 'a | Inherited | Undefined

definition get_member :: "(string \<times> 'a) list \<Rightarrow> string \<Rightarrow> 'a member" where
  "get_member obj k =
     (case map_of obj k of
        Some v \<Rightarrow> Own v
      | None \<Rightarrow> if k \<in> set object_prototype_names then Inherited else Undefined)"

text \<open>
  The \<open>name\<close> of an inherited member in a template: \<open>Object\<close> for the constructor,
  the key itself for the other functions, \<open>undefined\<close> for the prototype object.
\<close>

definition inherited_name :: "string \<Rightarrow> string" where
  "inherited_name k =
     (if k = ''constructor'' then ''Object'' else if k = ''__proto__'' then ''undefined'' else k)"

definition truthy :: "string option \<Rightarrow> bool" where
  "truthy x = (case x of None \<Rightarrow> False | Some s \<Rightarrow> s \<noteq> [])"

definition arg :: "string list \<Rightarrow> nat \<Rightarrow> string option" where
  "arg args i = (if i < length args then Some (args ! i) else None)"

definition dq :: string where
  "dq = [CHR 0x22]"

definition bulb :: string where
  "bulb = [CHR 0xF0, CHR 0x9F, CHR 0x92, CHR 0xA1]"

definition new_moon :: string where
  "new_moon = [CHR 0xF0, CHR 0x9F, CHR 0x8C, CHR 0x91]"

definition arrow :: string where
  "arrow = [CHR 0xE2, CHR 0x86, CHR 0x92]"

text \<open>The line \<open>${id} "error" ${err.description} (type ${err.type})\<close>.\<close>

definition error_line :: "string \<Rightarrow> berr \<Rightarrow> string" where
  "error_line lid err =
     lid @ '' '' @ dq @ ''error'' @ dq @ '' '' @ description err @ '' (type '' @ int_to_string (err_type err) @ '')''"

subsection \<open>Light selection (lines 171 to 210)\<close>

text \<open>\<open>s.split(",")\<close> and, for an array used as a property key, \<open>l.join(",")\<close>.\<close>

fun split_comma :: "string \<Rightarrow> string list" where
  "split_comma [] = [[]]"
| "split_comma (c # cs) =
     (if c = CHR '','' then [] # split_comma cs
      else (case split_comma cs of [] \<Rightarrow> [[c]] | w # ws \<Rightarrow> (c # w) # ws))"

fun join_comma :: "string list \<Rightarrow> string" where
  "join_comma [] = []"
| "join_comma [w] = w"
| "join_comma (w # ws) = w @ '','' @ join_comma ws"

text \<open>\<open>config.alias && config.alias[l]\<close>: undefined when the config has no alias table.\<close>

definition alias_lookup :: "(string \<times> string) list option \<Rightarrow> string \<Rightarrow> string member" where
  "alias_lookup al k = (case al of None \<Rightarrow> Undefined | Some m \<Rightarrow> get_member m k)"

text \<open>
  The \<open>switch (l[0])\<close>: the selection \<open>l\<close> and the action \<open>args[2]\<close> after it, from the
  ids of the bridge (\<open>keys\<close>), the aliases of the config, \<open>args[1]\<close> and \<open>args[2]\<close>.
  In the default case an alias that is a string is split when it is not empty; an inherited
  member is truthy and has no \<open>split\<close>, so line 207 throws a TypeError.
\<close>

definition select :: "string list \<Rightarrow> (string \<times> string) list option \<Rightarrow> string \<Rightarrow> string option
    \<Rightarrow> ending + string list \<times> string option" where
  "select keys al a1 a2 =
     (let l = split_comma a1;
          l0 = (case l of [] \<Rightarrow> None | x # _ \<Rightarrow> Some x)
      in if l0 = Some ''all'' then Inr (keys, a2)
         else if l0 = Some ''on'' then Inr (keys, Some ''on'')
         else if l0 = Some ''off'' then Inr (keys, Some ''off'')
         else if l0 = Some ''colorloop'' then Inr (keys, Some ''colorloop'')
         else if l0 = Some ''alert'' then Inr (keys, Some ''alert'')
         else if l0 = Some ''clear'' then Inr (keys, Some ''clear'')
         else if l0 = Some ''reset'' then Inr (keys, Some ''reset'')
         else if l0 = Some ''state'' then Inr (keys, Some ''state'')
         else (case alias_lookup al (join_comma l) of
                 Own v \<Rightarrow> if v \<noteq> [] then Inr (split_comma v, a2) else Inr (l, a2)
               | Inherited \<Rightarrow> Inl Throw_TypeError
               | Undefined \<Rightarrow> Inr (l, a2)))"

subsection \<open>The action on the selected lights (lines 229 to 334)\<close>

text \<open>
  \<open>csscolors[s] || s\<close>, on the colour table after the colours of the config were added;
  \<open>css\<close> gives the own entries of the table. The result is a string, or an inherited
  member when the token names one and the table has no entry of that name.
\<close>

datatype hexarg = Hex_string string | Hex_member

definition css_lookup :: "(string \<Rightarrow> string option) \<Rightarrow> string \<Rightarrow> hexarg" where
  "css_lookup css s =
     (case css s of
        Some v \<Rightarrow> if v \<noteq> [] then Hex_string v else Hex_string s
      | None \<Rightarrow> if s \<in> set object_prototype_names then Hex_member else Hex_string s)"

text \<open>
  \<open>hex2rgb\<close> on what \<open>css_lookup\<close> gives. On an inherited member every \<open>hex[i]\<close> is
  undefined and \<open>hex.length\<close> is the number of parameters of the function (0, 1 or 2),
  or undefined for the prototype object, so never 3.
\<close>

definition hex2rgb_arg :: "hexarg \<Rightarrow> jsnum \<times> jsnum \<times> jsnum" where
  "hex2rgb_arg h =
     (case h of
        Hex_string hex \<Rightarrow> hex2rgb hex
      | Hex_member \<Rightarrow> (todec None None, todec None None, todec None None))"

definition reset_patch :: jsval where
  "reset_patch =
     JObj [(''on'', JBool True), (''bri'', JNum (Some 254)), (''effect'', JStr ''none''),
           (''alert'', JStr ''none''), (''ct'', JNum (Some 370))]"

text \<open>
  The \<open>switch (args[2])\<close>. Each \<open>forEach\<close> issues one request per selected id, in the
  order of the selection; \<open>stdin\<close> is what reading and parsing \<open>/dev/stdin\<close> gives
  (\<open>Inl\<close> the message of the exception). The flag \<open>json\<close> is not read here.
\<close>

definition action :: "(string \<Rightarrow> string option) \<Rightarrow> string + jsval \<Rightarrow> string list \<Rightarrow> string
    \<Rightarrow> event list \<times> ending" where
  "action css stdin l s =
     (if s = ''off'' then (map (\<lambda>lid. Request (Client_off lid)) l, Return)
      else if s = ''on'' then (map (\<lambda>lid. Request (Client_on lid)) l, Return)
      else if s = ''colorloop''
        then (map (\<lambda>lid. Request (Client_state lid (JObj [(''effect'', JStr ''colorloop'')]))) l, Return)
      else if s = ''alert''
        then (map (\<lambda>lid. Request (Client_state lid (JObj [(''alert'', JStr ''lselect'')]))) l, Return)
      else if s = ''clear''
        then (map (\<lambda>lid. Request (Client_state lid
                (JObj [(''effect'', JStr ''none''), (''alert'', JStr ''none'')]))) l, Return)
      else if s = ''reset'' then (map (\<lambda>lid. Request (Client_state lid reset_patch)) l, Return)
      else if s = ''state'' then
        (case stdin of
           Inl msg \<Rightarrow>
             ([Stdout ''Reading state data from stdin...'',
               Stderr (''Failed to read or parse state data from stdin: '' @ msg)], Exit 1)
         | Inr data \<Rightarrow>
             ([Stdout ''Reading state data from stdin...'',
               Stdout_inspect ''State data read from stdin:'' data]
              @ concat (map (\<lambda>lid.
                  [Stdout_inspect (''Setting state for light '' @ lid @ '' with data:'') data,
                   Request (Client_state lid data)]) l), Return))
      else (case match_bri s of
              Some m \<Rightarrow> (map (\<lambda>lid. Request (Client_light lid)) l, Return)
            | None \<Rightarrow>
                (case hex2rgb_arg (css_lookup css s) of
                   (r, g, b) \<Rightarrow> (map (\<lambda>lid. Request (Client_rgb lid r g b)) l, Return))))"

subsection \<open>The callbacks of the lights command\<close>

text \<open>
  \<open>callback(id)\<close> (lines 336 to 362) returns the function given to \<open>client.on\<close>,
  \<open>client.off\<close>, \<open>client.state\<close> and \<open>client.rgb\<close>. That function takes the error of
  the operation and asks for the lights; \<open>callback_reply\<close> is the inner function, whose
  own parameter \<open>err\<close> hides the outer one.
\<close>

definition callback :: "string \<Rightarrow> berr option \<Rightarrow> event list" where
  "callback lid err = [Request Client_lights]"

text \<open>
  In \<open>callback_reply\<close> the inner \<open>err\<close> is null once line 339 is passed: line 342 prints
  \<open>null\<close>, and line 343 is not taken. A light that is not in the reply has the text
  \<open>light ${id}\<close> for its state, whose \<open>on\<close> is undefined. An id that names an
  inherited member finds that member: its \<open>state\<close> is undefined, and reading \<open>on\<close> from
  it on line 345 throws a TypeError.
\<close>

definition callback_reply :: "bool \<Rightarrow> string option \<Rightarrow> string \<Rightarrow> berr + lights \<Rightarrow> event list \<times> ending" where
  "callback_reply json a2 lid reply =
     (case reply of
        Inl err \<Rightarrow> ([], Throw err)
      | Inr ls \<Rightarrow>
          (let lightName = (case get_member ls lid of
                              Own lt \<Rightarrow> name lt
                            | Inherited \<Rightarrow> inherited_name lid
                            | Undefined \<Rightarrow> ''light '' @ lid);
               lightOn = (case get_member ls lid of Own lt \<Rightarrow> state_on lt | _ \<Rightarrow> False)
           in if json then ([Stdout_json P_null], Return)
              else if a2 = Some ''on'' \<or> a2 = Some ''off''
                then (if get_member ls lid = Inherited then ([], Throw_TypeError)
                      else ([Stdout ((if lightOn then bulb else new_moon) @ '' '' @ lightName
                               @ '' was turned '' @ (if lightOn then ''on'' else ''off''))], Return))
              else if a2 = Some ''reset'' then ([Stdout (lightName @ '' reset to default state'')], Return)
              else if a2 = Some ''colorloop'' then ([Stdout (lightName @ '' color loop started'')], Return)
              else if a2 = Some ''alert'' then ([Stdout (lightName @ '' alert started'')], Return)
              else if a2 = Some ''clear'' then ([Stdout (lightName @ '' effects cleared'')], Return)
              else if a2 = Some ''state'' then ([Stdout (lightName @ '' state changed'')], Return)
              else ([Stdout (lightName @ '' color changed'')], Return)))"

text \<open>The callback of \<open>client.light\<close> in the info query (lines 215 to 224).\<close>

definition info_reply :: "bool \<Rightarrow> string \<Rightarrow> berr + light \<Rightarrow> event list" where
  "info_reply json lid reply =
     (case reply of
        Inl err \<Rightarrow> if json then [Stdout_json (P_err err)] else [Stdout (error_line lid err)]
      | Inr data \<Rightarrow>
          if json then [Stdout_json (P_light lid data)]
          else [Stdout (lid @ '' '' @ (if state_on data then ''on'' else ''off'') @ '' ''
                  @ int_to_string (state_bri data) @ '' '' @ name data)])"

text \<open>The three nested callbacks of a brightness expression (lines 287 to 322).\<close>

definition bri_light_reply :: "bool \<Rightarrow> string \<Rightarrow> char \<Rightarrow> string \<Rightarrow> bool \<Rightarrow> berr + light \<Rightarrow> event list" where
  "bri_light_reply json lid op num perc reply =
     (case reply of
        Inl err \<Rightarrow> if json then [Stdout_json (P_err err)] else [Stdout (error_line lid err)]
      | Inr data \<Rightarrow>
          [Request (Client_state lid (JObj [(''bri'', JNum (new_bri op num perc (state_bri data)))]))])"

definition bri_state_reply :: "bool \<Rightarrow> string \<Rightarrow> berr + jsval \<Rightarrow> event list" where
  "bri_state_reply json lid reply =
     (if json then [Stdout_json (case reply of Inl err \<Rightarrow> P_err err | Inr data \<Rightarrow> P_val data)]
      else (case reply of
              Inl err \<Rightarrow> [Stdout (error_line lid err)]
            | Inr data \<Rightarrow> [Request Client_lights]))"

definition bri_lights_reply :: "string \<Rightarrow> int \<Rightarrow> jsnum \<Rightarrow> berr + lights \<Rightarrow> event list \<times> ending" where
  "bri_lights_reply lid oldbri bri reply =
     (case reply of
        Inl err \<Rightarrow> ([], Throw_TypeError)
      | Inr ls \<Rightarrow>
          (let lightName = (case get_member ls lid of
                              Own lt \<Rightarrow> name lt
                            | Inherited \<Rightarrow> inherited_name lid
                            | Undefined \<Rightarrow> ''light '' @ lid)
           in ([Stdout (bulb @ '' '' @ lightName @ '' Brightness Updated: '' @ int_to_string oldbri
                  @ '' '' @ arrow @ '' '' @ to_string (N bri))], Return)))"

subsection \<open>The lights command (lines 158 to 228, 461 to 477)\<close>

text \<open>The function given to \<open>getlights\<close>, up to the \<open>switch (args[2])\<close>.\<close>

definition lights_body :: "bool \<Rightarrow> config \<Rightarrow> (string \<Rightarrow> string option) \<Rightarrow> string + jsval
    \<Rightarrow> string list \<Rightarrow> lights \<Rightarrow> event list \<times> ending" where
  "lights_body json c css stdin args ls =
     (let keys = map fst ls
      in if \<not> truthy (arg args 1)
         then (if json then [Stdout_json (P_lights ls)]
               else map (\<lambda>(key, lt). Stdout (key @ '', '' @ name lt)) ls, Return)
         else (case select keys (aliases c) (str_of (arg args 1)) (arg args 2) of
                 Inl x \<Rightarrow> ([], x)
               | Inr (l, a2) \<Rightarrow>
                   if \<not> truthy a2 then (map (\<lambda>lid. Request (Client_light lid)) l, Return)
                   else action css stdin l (str_of a2)))"

text \<open>The callback of \<open>client.lights\<close> inside \<open>getlights\<close>.\<close>

definition getlights_reply :: "bool \<Rightarrow> config \<Rightarrow> (string \<Rightarrow> string option) \<Rightarrow> string + jsval
    \<Rightarrow> string list \<Rightarrow> berr + lights \<Rightarrow> event list \<times> ending" where
  "getlights_reply json c css stdin args reply =
     (case reply of
        Inl err \<Rightarrow>
          if err_type err = 1
          then ([Stderr ''error: application not registered, run `hue register` first''], Exit 1)
          else ([Stdout ''Service unavailable. Please try again later.''], Exit 1)
      | Inr ls \<Rightarrow> lights_body json c css stdin args ls)"

subsection \<open>The script: options, config, command switch (lines 22 to 135, 143 to 458)\<close>

definition nl :: string where
  "nl = [CHR 0x0A]"

fun join_lines :: "string list \<Rightarrow> string" where
  "join_lines [] = []"
| "join_lines [w] = w"
| "join_lines (w # ws) = w @ nl @ join_lines ws"

definition usage :: string where
  "usage = join_lines
    [''Usage: hue [-c config] [-H host] [--json] [command]'',
     [],
     ''control philips hue over the command line'',
     [],
     ''examples'',
     ''  hue config                  # view the hue config'',
     ''  hue lights                  # get a list of lights'',
     ''  hue lights 5                # get information about light 5'',
     ''  hue lights 5,6,7 on         # turn lights 5 6 and 7 on'',
     ''  hue lights on               # turn all lights on'',
     ''  hue lights 1 ff0000         # turn light 1 red'',
     ''  hue lights 1 red            # same as above'',
     ''  hue lights 1 +10            # increase the brightness by 10 (out of 254)'',
     ''  hue lights 1 -10            # decrease the brightness by 10 (out of 254)'',
     ''  hue lights 1 =100           # set the brightness to 100 (out of 254)'',
     ''  hue lights 1 +10%           # increase the brightness by 10%'',
     ''  hue lights 1 -10%           # decrease the brightness by 10'',
     ''  hue lights 1 =100%          # set the brightness to 100%'',
     ''  hue lights 4,5 colorloop    # enable the colorloop effect on lights 4 and 5'',
     ''  hue lights 4,5 alert        # blink lights 4 and 5 for 30 seconds'',
     ''  hue lights 4,5 clear        # clear any effects on lights 4 and 5'',
     ''  hue lights 1 state          # set the state on light 1 as passed in as JSON over stdin'',
     ''  hue rename 1 light-name     # set light 1's name to the given string'',
     ''  hue lights reset            # Reset lamps to default (on, as if just switched)'',
     ''  hue lights 1,2 reset        # reset just bulbs 1 and 2'',
     ''  hue help                    # this message'',
     ''  hue register                # register this app to hue'',
     ''  hue search                  # search for hue base stations'',
     ''  hue alias                   # shows all the defined aliases'',
     ''  hue alias bedroom 8,9,10    # creates an alias allowing `hue lights bedroom on` and so on'',
     [],
     ''commands'',
     ''  config, lights, help, register, search'',
     [],
     ''options'',
     ''  -c, --config <file>    config file, defaults to ~/.hue.json'',
     ''  -h, --help             print this message and exit'',
     ''  -H, --host             the hostname or ip of the bridge to control'',
     ''  -j, --json             force output to be in json'',
     ''  -u, --updates          check for available updates'',
     ''  -v, --version          print the version number and exit'']"

text \<open>What \<open>parser.getopt()\<close> returns, one value per call.\<close>

datatype opt = Opt_c string | Opt_h | Opt_H string | Opt_j | Opt_u | Opt_v | Opt_unknown

text \<open>
  What the script reads from its surroundings: the home directory, \<open>pkg.version\<close>,
  the result of \<open>JSON.parse(fs.readFileSync(file, "utf-8"))\<close> for each path (\<open>Inl\<close> the
  message of the exception), whether \<open>statPath(path)\<close> is there and is a file, the same
  reading and parsing for \<open>/dev/stdin\<close>, and the table of the package \<open>css-color-names\<close>.
\<close>

record env =
  homedir :: string
  version :: string
  read_config :: "string \<Rightarrow> string + config"
  is_file :: "string \<Rightarrow> bool"
  stdin_state :: "string + jsval"
  csscolors :: "string \<Rightarrow> string option"

text \<open>The variables \<open>configfile\<close>, \<open>config\<close> and \<open>json\<close> of the script.\<close>

record st =
  configfile :: "string option"
  cfg :: config
  json :: bool

definition empty_config :: config where
  "empty_config = \<lparr>host = None, username = None, colors = None, aliases = None\<rparr>"

definition st0 :: st where
  "st0 = \<lparr>configfile = None, cfg = empty_config, json = False\<rparr>"

text \<open>\<open>path.join(homedir, ".hue.json")\<close>.\<close>

definition defaultconfigfile :: "env \<Rightarrow> string" where
  "defaultconfigfile e = homedir e @ ''/.hue.json''"

text \<open>The \<open>while\<close> loop over the options (lines 91 to 120).\<close>

fun getopt_loop :: "env \<Rightarrow> opt list \<Rightarrow> st \<Rightarrow> event list \<times> (ending + st)" where
  "getopt_loop e [] s = ([], Inr s)"
| "getopt_loop e (Opt_c f # os) s = getopt_loop e os (s\<lparr>configfile := Some f\<rparr>)"
| "getopt_loop e (Opt_h # os) s = ([Stdout usage], Inl (Exit 0))"
| "getopt_loop e (Opt_H h # os) s = getopt_loop e os (s\<lparr>cfg := (cfg s)\<lparr>host := Some h\<rparr>\<rparr>)"
| "getopt_loop e (Opt_j # os) s = getopt_loop e os (s\<lparr>json := True\<rparr>)"
| "getopt_loop e (Opt_u # os) s =
     (case getopt_loop e os s of (es, r) \<Rightarrow> (Import_latest # es, r))"
| "getopt_loop e (Opt_v # os) s = ([Stdout (version e)], Inl (Exit 0))"
| "getopt_loop e (Opt_unknown # os) s = ([Stderr usage], Inl (Exit 1))"

text \<open>
  \<open>deepmerge(readConfig, config)\<close>: a key of the second object wins. The second object
  is the one the options filled, so only its \<open>host\<close> can be set.
\<close>

definition deepmerge :: "config \<Rightarrow> config \<Rightarrow> config" where
  "deepmerge x y =
     \<lparr>host = (case host y of None \<Rightarrow> host x | Some h \<Rightarrow> Some h),
      username = (case username y of None \<Rightarrow> username x | Some u \<Rightarrow> Some u),
      colors = (case colors y of None \<Rightarrow> colors x | Some m \<Rightarrow> Some m),
      aliases = (case aliases y of None \<Rightarrow> aliases x | Some m \<Rightarrow> Some m)\<rparr>"

text \<open>
  \<open>configfile || defaultconfigfile\<close> is \<open>config_path\<close>. The \<open>try\<close> of lines 124 to 134. \<open>configfile\<close> is assigned before the file is read, so
  the \<open>catch\<close> tests the path just assigned.
\<close>

definition config_path :: "env \<Rightarrow> st \<Rightarrow> string" where
  "config_path e s = (if truthy (configfile s) then str_of (configfile s) else defaultconfigfile e)"

definition load_config :: "env \<Rightarrow> st \<Rightarrow> event list \<times> (ending + st)" where
  "load_config e s =
     (let file = config_path e s;
          s1 = s\<lparr>configfile := Some file\<rparr>
      in case read_config e file of
           Inr readConfig \<Rightarrow> ([], Inr (s1\<lparr>cfg := deepmerge readConfig (cfg s1)\<rparr>))
         | Inl msg \<Rightarrow>
             if truthy (configfile s1)
             then ([Stderr (''failed to read config '' @ str_of (configfile s1) @ '': '' @ msg)],
                   Inl (Exit 1))
             else ([], Inr s1))"

text \<open>
  Lines 137 to 141: the colours of the config go into the colour table. Assigning a string
  to \<open>__proto__\<close> on an object that has no entry of that name goes to the inherited setter,
  which ignores it.
\<close>

definition load_colors :: "config \<Rightarrow> (string \<Rightarrow> string option) \<Rightarrow> string \<Rightarrow> string option" where
  "load_colors c css =
     (case colors c of
        None \<Rightarrow> css
      | Some m \<Rightarrow> fold (\<lambda>(k, v) t. if k = ''__proto__'' \<and> t k = None then t else t(k \<mapsto> v)) m css)"

definition getclient :: "config \<Rightarrow> event list \<times> (ending + unit)" where
  "getclient c =
     (if \<not> truthy (host c)
      then ([Stderr (join_lines [''error: host not set'', [], ''search for hosts with `hue search`'',
                                 ''then run with `-H <host>`''])], Inl (Exit 1))
      else ([Create_client (host c) (username c)], Inr ()))"

text \<open>
  \<open>config.alias[args[1]] = args[2]\<close> on the entries of the object (a new key
  \<open>__proto__\<close> goes to the inherited setter and adds nothing).
\<close>

definition alias_set :: "string \<Rightarrow> string \<Rightarrow> (string \<times> string) list \<Rightarrow> (string \<times> string) list" where
  "alias_set k v m =
     (if map_of m k = None then (if k = ''__proto__'' then m else m @ [(k, v)])
      else map (\<lambda>(a, b). if a = k then (a, v) else (a, b)) m)"

text \<open>The \<open>switch (args[0])\<close>, up to the first reply of the bridge.\<close>

definition command :: "env \<Rightarrow> st \<Rightarrow> string list \<Rightarrow> event list \<times> ending" where
  "command e s args =
     (let a0 = arg args 0
      in if a0 = Some ''config'' then
           (case getclient (cfg s) of
              (es, Inl x) \<Rightarrow> (es, x)
            | (es, Inr u) \<Rightarrow> (es @ [Request Client_config], Return))
         else if a0 = Some ''help'' then ([Stdout usage], Return)
         else if a0 = Some ''lights'' \<or> a0 = Some ''light'' \<or> a0 = Some ''list'' then
           (case getclient (cfg s) of
              (es, Inl x) \<Rightarrow> (es, x)
            | (es, Inr u) \<Rightarrow> (es @ [Request Client_lights], Return))
         else if a0 = Some ''register'' then
           (if (case configfile s of None \<Rightarrow> False | Some f \<Rightarrow> is_file e f)
            then ([Stdout (''A config file already exists at '' @ str_of (configfile s)),
                   Stdout ''please remove it before attempting to register a new hub''], Exit 1)
            else (case getclient (cfg s) of
                    (es, Inl x) \<Rightarrow> (es, x)
                  | (es, Inr u) \<Rightarrow>
                      (es @ [Stdout ''Please go and press the link button on your base station'',
                             Request Client_register], Return)))
         else if a0 = Some ''alias'' then
           (let al = (case aliases (cfg s) of None \<Rightarrow> [] | Some m \<Rightarrow> m)
            in if length args = 1 then ([Stdout_json (P_alias al)], Return)
               else if length args = 3 then
                 ([Write_file (str_of (configfile s))
                     ((cfg s)\<lparr>aliases := Some (alias_set (args ! 1) (args ! 2) al)\<rparr>),
                   Stdout (''config in '' @ str_of (configfile s) @ '' updated'')], Return)
               else ([Stderr ''wrong usage of alias, run `hue help`''], Exit 1))
         else if a0 = Some ''search'' then ([Request Hue_discover], Return)
         else if a0 = Some ''rename'' then
           (case getclient (cfg s) of
              (es, Inl x) \<Rightarrow> (es, x)
            | (es, Inr u) \<Rightarrow> (es @ [Request (Client_rename (arg args 1) (arg args 2))], Return))
         else ([Stderr ''unknown command: run `hue help` for more information''], Exit 1))"

text \<open>The whole synchronous run of the script, from the options to the end of the switch.\<close>

definition main :: "env \<Rightarrow> opt list \<Rightarrow> string list \<Rightarrow> event list \<times> ending" where
  "main e opts args =
     (case getopt_loop e opts st0 of
        (es1, Inl x) \<Rightarrow> (es1, x)
      | (es1, Inr s1) \<Rightarrow>
          (case load_config e s1 of
             (es2, Inl x) \<Rightarrow> (es1 @ es2, x)
           | (es2, Inr s2) \<Rightarrow>
               (case command e s2 args of (es3, x) \<Rightarrow> (es1 @ es2 @ es3, x))))"

text \<open>The callback of \<open>client.register\<close> (lines 376 to 390).\<close>

definition register_reply :: "st \<Rightarrow> berr + string \<Rightarrow> event list \<times> ending" where
  "register_reply s reply =
     (case reply of
        Inl err \<Rightarrow>
          ([Stderr (''failed to pair to Hue Base Station '' @ str_of (host (cfg s)))], Throw err)
      | Inr user \<Rightarrow>
          ([Stdout ''Hue Base Station paired!'',
            Stdout (''username: '' @ user),
            Write_file (str_of (configfile s)) ((cfg s)\<lparr>username := Some user\<rparr>),
            Stdout (''config file written to '' @ str_of (configfile s))], Return))"

subsection \<open>The brightness rule in the words of the specification\<close>

text \<open>
  The specification's rule, for comparison with \<open>new_bri\<close>: the magnitude \<open>n\<close>, turned
  into \<open>round(n * 254 / 100)\<close> in percentage mode, is the new value (\<open>=\<close>), is added to
  the current value (\<open>+\<close>) or taken from it (\<open>-\<close>); the result is clamped to 1..254.
\<close>

definition clamp :: "int \<Rightarrow> int" where
  "clamp v = min 254 (max 1 v)"

definition bri_spec :: "char \<Rightarrow> int \<Rightarrow> bool \<Rightarrow> int \<Rightarrow> int" where
  "bri_spec op n perc cur =
     (let m = (if perc then (n * 254 + 50) div 100 else n)
      in clamp (if op = CHR ''='' then m else if op = CHR ''+'' then cur + m else cur - m))"

text \<open>The callbacks of \<open>client.config\<close>, \<open>Hue.discover\<close> and \<open>client.rename\<close>.\<close>

definition config_reply :: "berr + jsval \<Rightarrow> event list" where
  "config_reply reply = [Stdout_json (case reply of Inl err \<Rightarrow> P_err err | Inr data \<Rightarrow> P_val data)]"

definition discover_reply :: "bool \<Rightarrow> string list \<Rightarrow> event list" where
  "discover_reply j stations =
     (if j then [Stdout_json (P_stations stations)]
      else if length stations = 0 then [Stdout ''No stations found. Check your network connection.'']
      else if length stations = 1 then [Stdout (''1 station found: '' @ stations ! 0)]
      else Stdout (int_to_string (int (length stations)) @ '' stations found: '' @ nl)
           # map (\<lambda>(i, name). Stdout (int_to_string (int i + 1) @ '': '' @ name))
               (enumerate 0 stations))"

definition rename_reply :: "string list \<Rightarrow> berr option \<Rightarrow> event list" where
  "rename_reply args reply =
     (case reply of
        Some r \<Rightarrow> [Stdout (''problem renaming light: '' @ description r)]
      | None \<Rightarrow> [Stdout (''light '' @ str_of (arg args 1) @ '' renamed'')])"

text \<open>
  The variables as the command switch and the callbacks find them: after the option loop
  and the config load, if the run got that far.
\<close>

definition after_load :: "env \<Rightarrow> opt list \<Rightarrow> st option" where
  "after_load e opts =
     (case getopt_loop e opts st0 of
        (es1, Inl x) \<Rightarrow> None
      | (es1, Inr s1) \<Rightarrow>
          (case load_config e s1 of (es2, Inl x) \<Rightarrow> None | (es2, Inr s2) \<Rightarrow> Some s2))"

text \<open>The callback of the lights command, with the variables and surroundings of the run.\<close>

definition lights_reply :: "env \<Rightarrow> st \<Rightarrow> string list \<Rightarrow> berr + lights \<Rightarrow> event list \<times> ending" where
  "lights_reply e s args reply =
     getlights_reply (json s) (cfg s) (load_colors (cfg s) (csscolors e)) (stdin_state e) args reply"

subsection \<open>Names for the case labels, the effects and two sample surroundings\<close>

text \<open>The case labels of the \<open>switch (l[0])\<close> and of the \<open>switch (args[2])\<close>.\<close>

definition shortcuts :: "string list" where
  "shortcuts = [''all'', ''on'', ''off'', ''colorloop'', ''alert'', ''clear'', ''reset'', ''state'']"

definition action_words :: "string list" where
  "action_words = [''off'', ''on'', ''colorloop'', ''alert'', ''clear'', ''reset'', ''state'']"

text \<open>The effects that reach the bridge, the network or the file system.\<close>

definition is_io :: "event \<Rightarrow> bool" where
  "is_io ev =
     (case ev of
        Create_client h u \<Rightarrow> True
      | Request c \<Rightarrow> True
      | Write_file p c \<Rightarrow> True
      | _ \<Rightarrow> False)"

text \<open>
  A first run, with no config file anywhere, and a machine with a config at the default
  path and \<open>{"on": true}\<close> on standard input.
\<close>

definition env_first_run :: env where
  "env_first_run =
     \<lparr>homedir = ''/home/u'', version = ''1.0.0'',
      read_config = (\<lambda>p. Inl ''ENOENT: no such file or directory''),
      is_file = (\<lambda>p. False), stdin_state = Inl ''EAGAIN'', csscolors = (\<lambda>n. None)\<rparr>"

definition env_registered :: env where
  "env_registered =
     \<lparr>homedir = ''/home/u'', version = ''1.0.0'',
      read_config = (\<lambda>p. if p = ''/home/u/.hue.json''
         then Inr \<lparr>host = Some ''10.0.0.2'', username = Some ''abc'', colors = None, aliases = None\<rparr>
         else Inl ''ENOENT: no such file or directory''),
      is_file = (\<lambda>p. p = ''/home/u/.hue.json''),
      stdin_state = Inr (JObj [(''on'', JBool True)]),
      csscolors = (\<lambda>n. None)\<rparr>"

section \<open>Properties\<close>

subsection \<open>Digits, numbers and the brightness pattern\<close>

lemma is_digit_not_sign: "is_digit c \<Longrightarrow> c \<noteq> CHR ''-'' \<and> c \<noteq> CHR ''+''"
  by (auto simp: is_digit_def)

lemma str_to_number_digits:
  "ds \<noteq> [] \<Longrightarrow> list_all is_digit ds \<Longrightarrow> str_to_number ds = Some (int (dec_val ds))"
  by (cases ds) (auto simp: str_to_number_def dest: is_digit_not_sign)

lemma digit_char_is_digit: "d < 10 \<Longrightarrow> is_digit (digit_char d)"
  unfolding is_digit_def digit_char_def by (rule nth_mem) simp

lemma digits_of_digits: "list_all is_digit (digits_of n) \<and> digits_of n \<noteq> []"
proof (induction n rule: digits_of.induct)
  case (1 n)
  show ?case
  proof (cases "n < 10")
    case True
    then show ?thesis
      by (subst digits_of.simps, subst (2) digits_of.simps) (simp add: digit_char_is_digit)
  next
    case False
    then show ?thesis using 1
      by (subst digits_of.simps, subst (2) digits_of.simps) (simp add: digit_char_is_digit)
  qed
qed

text \<open>A number written out and followed by digits reads as a number again.\<close>

lemma int_to_string_concat_number:
  assumes "list_all is_digit ds"
  shows "\<exists>k. str_to_number (int_to_string i @ ds) = Some k"
proof (cases "i < 0")
  case True
  then show ?thesis using assms digits_of_digits [of "nat (- i)"]
    by (simp add: int_to_string_def str_to_number_def)
next
  case False
  have "digits_of (nat i) @ ds \<noteq> []" "list_all is_digit (digits_of (nat i) @ ds)"
    using assms digits_of_digits [of "nat i"] by simp_all
  then have "str_to_number (digits_of (nat i) @ ds) = Some (int (dec_val (digits_of (nat i) @ ds)))"
    by (rule str_to_number_digits)
  then show ?thesis using False by (simp add: int_to_string_def)
qed

lemma match_bri_SomeD:
  "match_bri s = Some (op, num, perc) \<Longrightarrow> op \<in> set ''-+='' \<and> num \<noteq> [] \<and> list_all is_digit num"
  by (cases s) (auto simp: match_bri_def Let_def split: if_splits)

lemma clamp_range:
  "\<exists>v. to_number (math_min (N (Some 254)) (math_max (N (Some 1)) (N (Some k)))) = Some v
        \<and> 1 \<le> v \<and> v \<le> 254"
  by (simp add: to_number_def math_min_def math_max_def num2_def)

lemma clamp_range_str:
  "str_to_number t = Some k \<Longrightarrow>
     \<exists>v. to_number (math_min (N (Some 254)) (math_max (N (Some 1)) (S t))) = Some v
          \<and> 1 \<le> v \<and> v \<le> 254"
  by (simp add: to_number_def math_min_def math_max_def num2_def)

lemma new_bri_range:
  assumes "op \<in> set ''-+=''" "num \<noteq> []" "list_all is_digit num"
  shows "\<exists>v. new_bri op num perc cur = Some v \<and> 1 \<le> v \<and> v \<le> 254"
proof -
  have n: "str_to_number num = Some (int (dec_val num))"
    using assms by (simp add: str_to_number_digits)
  obtain k where k: "str_to_number (int_to_string cur @ num) = Some k"
    using int_to_string_concat_number [OF assms(3)] by blast
  consider "op = CHR ''=''" | "op = CHR ''+''" | "op = CHR ''-''" using assms(1) by auto
  then show ?thesis
  proof cases
    case 1
    then show ?thesis using n clamp_range clamp_range_str [OF n]
      by (cases perc) (simp_all add: new_bri_def round_percent_def)
  next
    case 2
    then show ?thesis using n clamp_range clamp_range_str [OF k]
      by (cases perc) (simp_all add: new_bri_def round_percent_def js_add_def to_string_def num2_def)
  next
    case 3
    then show ?thesis using n clamp_range
      by (cases perc) (simp_all add: new_bri_def round_percent_def js_sub_def to_number_def num2_def)
  qed
qed

text \<open>
  Outside the plain increment, the script computes what the specification's rule says:
  absolute values, decrements and all three percentage forms.
\<close>

lemma new_bri_meets_spec:
  assumes "op \<in> set ''-+=''" "num \<noteq> []" "list_all is_digit num" "\<not> (op = CHR ''+'' \<and> \<not> perc)"
  shows "new_bri op num perc cur = Some (bri_spec op (int (dec_val num)) perc cur)"
proof -
  have n: "str_to_number num = Some (int (dec_val num))"
    using assms by (simp add: str_to_number_digits)
  consider "op = CHR ''=''" | "op = CHR ''+''" "perc" | "op = CHR ''-''" using assms(1,4) by auto
  then show ?thesis
  proof cases
    case 1
    then show ?thesis using n
      by (cases perc)
        (simp_all add: new_bri_def bri_spec_def clamp_def round_percent_def to_number_def
          math_min_def math_max_def num2_def)
  next
    case 2
    then show ?thesis using n
      by (simp add: new_bri_def bri_spec_def clamp_def round_percent_def js_add_def to_number_def
          math_min_def math_max_def num2_def)
  next
    case 3
    then show ?thesis using n
      by (cases perc)
        (simp_all add: new_bri_def bri_spec_def clamp_def round_percent_def js_sub_def to_number_def
          math_min_def math_max_def num2_def)
  qed
qed

subsection \<open>Brightness expressions\<close>

text \<open>
  Claim C2. The patch of a brightness expression is \<open>{bri: v}\<close> with \<open>v\<close> the clamp of
  \<open>N\<close>, \<open>current + N\<close> or \<open>current - N\<close>; in particular \<open>+N\<close> with a plain integer
  adds exactly \<open>N\<close>. The script does not do that for the plain increment: \<open>num\<close> is the
  matched text, so \<open>bri += num\<close> appends the digits to the current value. On a light at
  brightness 1, \<open>+5\<close> sends \<open>{bri: 15}\<close>, where the rule of the specification (and the
  usage text, "increase the brightness by 10") gives 6.
\<close>

theorem plain_increment_concatenates:
  "match_bri ''+5'' = Some (CHR ''+'', ''5'', False) \<and>
   bri_light_reply False ''1'' (CHR ''+'') ''5'' False
       (Inr \<lparr>name = ''Desk'', state_on = True, state_bri = 1\<rparr>)
     = [Request (Client_state ''1'' (JObj [(''bri'', JNum (Some 15))]))] \<and>
   bri_spec (CHR ''+'') 5 False 1 = 6"
  by code_simp

text \<open>
  Claim C3. For every brightness expression (every token the pattern matches) and every
  current brightness, the value sent to the bridge is a number between 1 and 254.
\<close>

theorem brightness_in_range:
  assumes "match_bri s = Some (op, num, perc)"
  shows "\<exists>v. bri_light_reply j lid op num perc (Inr data)
              = [Request (Client_state lid (JObj [(''bri'', JNum (Some v))]))] \<and> 1 \<le> v \<and> v \<le> 254"
proof -
  from assms have "op \<in> set ''-+=''" "num \<noteq> []" "list_all is_digit num"
    using match_bri_SomeD by blast+
  then obtain v where "new_bri op num perc (state_bri data) = Some v" "1 \<le> v" "v \<le> 254"
    using new_bri_range by blast
  then show ?thesis by (simp add: bri_light_reply_def)
qed

theorem brightness_in_range_witness:
  "match_bri ''-300%'' = Some (CHR ''-'', ''300'', True) \<and>
   (\<exists>v. bri_light_reply False ''3'' (CHR ''-'') ''300'' True
            (Inr \<lparr>name = ''Desk'', state_on = True, state_bri = 100\<rparr>)
          = [Request (Client_state ''3'' (JObj [(''bri'', JNum (Some v))]))] \<and> 1 \<le> v \<and> v \<le> 254)"
proof -
  have m: "match_bri ''-300%'' = Some (CHR ''-'', ''300'', True)" by code_simp
  show ?thesis using m brightness_in_range [OF m] by blast
qed

text \<open>
  Claim C6. \<open>=100%\<close> sends brightness 254 and \<open>=0%\<close> sends brightness 1, whatever the
  light and its current brightness.
\<close>

theorem percent_instances:
  "match_bri ''=100%'' = Some (CHR ''='', ''100'', True) \<and>
   match_bri ''=0%'' = Some (CHR ''='', ''0'', True) \<and>
   bri_light_reply j lid (CHR ''='') ''100'' True (Inr data)
     = [Request (Client_state lid (JObj [(''bri'', JNum (Some 254))]))] \<and>
   bri_light_reply j lid (CHR ''='') ''0'' True (Inr data)
     = [Request (Client_state lid (JObj [(''bri'', JNum (Some 1))]))]"
proof -
  have a: "match_bri ''=100%'' = Some (CHR ''='', ''100'', True)" by code_simp
  have b: "match_bri ''=0%'' = Some (CHR ''='', ''0'', True)" by code_simp
  have c: "new_bri (CHR ''='') ''100'' True cur = Some 254" for cur by code_simp
  have d: "new_bri (CHR ''='') ''0'' True cur = Some 1" for cur by code_simp
  show ?thesis using a b by (simp add: bri_light_reply_def c d)
qed

subsection \<open>Hexadecimal colours\<close>

lemma hex_val_not_hash: "hex_val a \<noteq> None \<Longrightarrow> a \<noteq> CHR ''#''"
  by (auto simp: hex_val_def Let_def)

lemma hex_val_facts:
  assumes "hex_val a = Some v"
  shows "\<not> is_white a" "a \<noteq> CHR ''-''" "a \<noteq> CHR ''+''" "a \<noteq> CHR ''x''" "a \<noteq> CHR ''X''" "v < 16"
  using assms by (auto simp: hex_val_def is_white_def Let_def split: if_splits)

lemma parseInt16_pair:
  assumes "hex_val a = Some v" "hex_val b = Some w"
  shows "parseInt16 [a, b] = Some (int (16 * v + w))"
  using assms hex_val_facts [OF assms(1)] hex_val_facts [OF assms(2)]
  by (simp add: parseInt16_def strip_0x_def hex_run_def)

text \<open>Each channel of a three-digit colour is its digit twice, that is 17 times the digit.\<close>

lemma short_hex_value:
  assumes "hex_val a = Some u" "hex_val b = Some v" "hex_val c = Some w"
  shows "hex2rgb [a, b, c] = (Some (int (17 * u)), Some (int (17 * v)), Some (int (17 * w)))"
  using hex_val_not_hash [of a] assms
  by (simp add: hex2rgb_def char_at_def todec_def str_of_def parseInt16_pair)

text \<open>A pair that does not begin with a hexadecimal digit, a blank or a sign is \<open>NaN\<close>.\<close>

lemma parseInt16_no_digit:
  assumes "hex_val a = None" "\<not> is_white a" "a \<noteq> CHR ''-''" "a \<noteq> CHR ''+''"
  shows "parseInt16 (a # cs) = None"
proof -
  have "a \<noteq> CHR ''0''" using assms(1) by (auto simp: hex_val_def)
  then have "strip_0x (a # cs) = a # cs" by (cases cs) (simp_all add: strip_0x_def)
  then show ?thesis using assms by (simp add: parseInt16_def hex_run_def)
qed

text \<open>
  Claim C7. For hexadecimal digits \<open>a\<close>, \<open>b\<close>, \<open>c\<close>, the string \<open>abc\<close> parses to the same
  triple as \<open>aabbcc\<close>, and a leading \<open>#\<close> changes neither.
\<close>

theorem short_hex_expands:
  assumes "hex_val a \<noteq> None" "hex_val b \<noteq> None" "hex_val c \<noteq> None"
  shows "hex2rgb [a, b, c] = hex2rgb [a, a, b, b, c, c] \<and>
         hex2rgb (CHR ''#'' # [a, b, c]) = hex2rgb [a, a, b, b, c, c] \<and>
         hex2rgb (CHR ''#'' # [a, a, b, b, c, c]) = hex2rgb [a, a, b, b, c, c]"
  using hex_val_not_hash [OF assms(1)]
  by (simp add: hex2rgb_def char_at_def)

theorem short_hex_expands_witness:
  "hex_val (CHR ''f'') \<noteq> None \<and> hex_val (CHR ''A'') \<noteq> None \<and> hex_val (CHR ''3'') \<noteq> None \<and>
   hex2rgb ''fA3'' = hex2rgb ''ffAA33'' \<and> hex2rgb ''#fA3'' = hex2rgb ''ffAA33'' \<and>
   hex2rgb ''#ffAA33'' = hex2rgb ''ffAA33'' \<and> hex2rgb ''ffAA33'' = (Some 255, Some 170, Some 51)"
proof -
  have f: "hex_val (CHR ''f'') \<noteq> None" and a: "hex_val (CHR ''A'') \<noteq> None"
    and d: "hex_val (CHR ''3'') \<noteq> None"
    by (simp_all add: hex_val_def)
  have v: "hex2rgb ''ffAA33'' = (Some 255, Some 170, Some 51)" by code_simp
  show ?thesis using f a d v short_hex_expands [OF f a d] by simp
qed

subsection \<open>Light selection\<close>

lemma split_comma_nonempty: "split_comma s \<noteq> []"
  by (induction s) (auto split: list.splits)

lemma join_split_comma: "join_comma (split_comma s) = s"
proof (induction s)
  case Nil
  show ?case by simp
next
  case (Cons c cs)
  obtain w ws where sp: "split_comma cs = w # ws"
    using split_comma_nonempty [of cs] by (cases "split_comma cs") auto
  show ?case
  proof (cases "c = CHR '',''")
    case True
    then show ?thesis using Cons sp by simp
  next
    case False
    then show ?thesis using Cons sp by (cases ws) simp_all
  qed
qed

text \<open>
  Claim C4, as stated, fails: a comma list whose first element is a shortcut and which has
  further elements is expanded all the same. \<open>off,5\<close> selects all known lights and sets
  the action \<open>off\<close>; it is not the literal list \<open>off\<close>, \<open>5\<close>.
\<close>

theorem shortcut_with_more_ids_counterexample:
  "split_comma ''off,5'' = [''off'', ''5''] \<and>
   select [''1'', ''2''] None ''off,5'' None = Inr ([''1'', ''2''], Some ''off'') \<and>
   select [''1'', ''2''] None ''off,5'' None \<noteq> Inr ([''off'', ''5''], None)"
  by (simp add: select_def)

text \<open>
  Claim C4, amended. The expansion depends on the first element of the comma-split
  selector alone: when it is a shortcut keyword, the selection is all known light ids and,
  except for \<open>all\<close>, the action is that keyword, whatever follows the first comma.
  Otherwise the whole selector is looked up in the alias table and the action is
  unchanged: an alias that is a non-empty string gives its comma-split list; an empty
  alias, no alias, or no alias table gives the literal list; and a selector that is no
  alias but names a member every object inherits (\<open>constructor\<close>, \<open>toString\<close>, ...),
  with an alias table present, ends the callback with a TypeError.
\<close>

theorem select_by_first_element:
  assumes "split_comma a1 = w # ws"
  shows "select keys al a1 a2 =
           (if w \<in> set shortcuts then Inr (keys, if w = ''all'' then a2 else Some w)
            else (case al of
                    None \<Rightarrow> Inr (w # ws, a2)
                  | Some m \<Rightarrow>
                      (case map_of m a1 of
                         Some v \<Rightarrow> if v \<noteq> [] then Inr (split_comma v, a2) else Inr (w # ws, a2)
                       | None \<Rightarrow>
                           if a1 \<in> set object_prototype_names then Inl Throw_TypeError
                           else Inr (w # ws, a2))))"
proof -
  have j: "join_comma (w # ws) = a1" using join_split_comma [of a1] assms by simp
  show ?thesis
    unfolding select_def Let_def assms j
    by (simp add: shortcuts_def alias_lookup_def get_member_def split: option.splits)
qed

theorem select_by_first_element_witness:
  "split_comma ''reset,7'' = [''reset'', ''7''] \<and>
   select [''1'', ''2''] None ''reset,7'' (Some ''on'') = Inr ([''1'', ''2''], Some ''reset'')"
proof -
  have s: "split_comma ''reset,7'' = ''reset'' # [''7'']" by simp
  show ?thesis using s select_by_first_element [OF s, of "[''1'', ''2'']" None "Some ''on''"]
    by (simp add: shortcuts_def)
qed

text \<open>The three outcomes of the default case, on an alias table with one alias.\<close>

lemma select_default_cases:
  "select [''1''] (Some [(''bed'', ''8,9'')]) ''bed'' (Some ''on'') = Inr ([''8'', ''9''], Some ''on'') \<and>
   select [''1''] (Some [(''bed'', ''8,9'')]) ''4,5'' (Some ''on'') = Inr ([''4'', ''5''], Some ''on'') \<and>
   select [''1''] (Some [(''bed'', ''8,9'')]) ''constructor'' (Some ''on'') = Inl Throw_TypeError \<and>
   select [''1''] None ''constructor'' (Some ''on'') = Inr ([''constructor''], Some ''on'')"
  by (simp add: select_def alias_lookup_def get_member_def object_prototype_names_def)

subsection \<open>Errors of one light's operation\<close>

lemma callback_ignores_error: "callback lid (Some err) = callback lid None"
  by (simp add: callback_def)

text \<open>
  Claim C5. An error the bridge reports for one light's on, off, state or rgb call is to be
  reported with that light's name. The script does not report it: the function that
  receives the error only asks for the lights, and the callback of that request has a
  parameter \<open>err\<close> of its own, so line 343 never sees the error of the operation. For
  \<open>hue lights 1 on\<close>, with the bridge refusing the call and light 1 still off, the run
  prints that the light was turned off and no error; with \<open>-j\<close> it prints \<open>null\<close>.
\<close>

theorem operation_error_dropped:
  "callback ''1'' (Some \<lparr>description = ''resource, /lights/1/state, not available'', err_type = 3\<rparr>)
     = [Request Client_lights] \<and>
   callback_reply False (Some ''on'') ''1''
       (Inr [(''1'', \<lparr>name = ''Desk'', state_on = False, state_bri = 1\<rparr>)])
     = ([Stdout (new_moon @ '' Desk was turned off'')], Return) \<and>
   callback_reply True (Some ''on'') ''1''
       (Inr [(''1'', \<lparr>name = ''Desk'', state_on = False, state_bri = 1\<rparr>)])
     = ([Stdout_json P_null], Return)"
  by (simp add: callback_def callback_reply_def get_member_def)

subsection \<open>Output in JSON mode\<close>

text \<open>
  Claim C9. With \<open>-j\<close>, everything on standard output is to be JSON. For
  \<open>hue -j lights 1 state\<close> with \<open>{"on": true}\<close> on standard input it is not: the state
  action writes three lines of plain text before the request is sent, without reading
  the flag.
\<close>

theorem json_state_action_prints_text:
  "main env_registered [Opt_j] [''lights'', ''1'', ''state'']
     = ([Create_client (Some ''10.0.0.2'') (Some ''abc''), Request Client_lights], Return) \<and>
   map_option json (after_load env_registered [Opt_j]) = Some True \<and>
   map_option (\<lambda>s. lights_reply env_registered s [''lights'', ''1'', ''state'']
                       (Inr [(''1'', \<lparr>name = ''Desk'', state_on = False, state_bri = 1\<rparr>)]))
       (after_load env_registered [Opt_j])
     = Some ([Stdout ''Reading state data from stdin...'',
              Stdout_inspect ''State data read from stdin:'' (JObj [(''on'', JBool True)]),
              Stdout_inspect ''Setting state for light 1 with data:'' (JObj [(''on'', JBool True)]),
              Request (Client_state ''1'' (JObj [(''on'', JBool True)]))], Return)"
  by (simp add: main_def after_load_def load_config_def config_path_def defaultconfigfile_def
      env_registered_def st0_def empty_config_def deepmerge_def command_def getclient_def
      lights_reply_def load_colors_def getlights_reply_def lights_body_def arg_def truthy_def
      str_of_def select_def action_def alias_lookup_def)

subsection \<open>Malformed colours\<close>

lemma todec_undefined: "todec None None = None"
  by (simp add: todec_def str_of_def parseInt16_def strip_0x_def hex_run_def is_white_def
      hex_val_def)

text \<open>
  Claim C10, as stated, fails: a token with characters that are not hexadecimal digits
  raises no error. \<open>zzzzzz\<close> sends the channels \<open>NaN\<close>, \<open>NaN\<close>, \<open>NaN\<close>, and
  \<open>fg0000\<close> sends 15, 0, 0.
\<close>

theorem malformed_hex_counterexample:
  "match_bri ''zzzzzz'' = None \<and>
   action (\<lambda>n. None) (Inl ''EAGAIN'') [''1''] ''zzzzzz''
     = ([Request (Client_rgb ''1'' None None None)], Return) \<and>
   match_bri ''fg0000'' = None \<and>
   action (\<lambda>n. None) (Inl ''EAGAIN'') [''1''] ''fg0000''
     = ([Request (Client_rgb ''1'' (Some 15) (Some 0) (Some 0))], Return)"
  by code_simp

text \<open>
  Claim C10, amended. For every action token that is no action keyword, no brightness
  expression and no known colour name, malformed or not, the script raises no error: it
  sends one RGB request for each selected light, in the order of the selection, and
  returns. The three channels are those \<open>hex2rgb\<close> reads from the token; only when the
  token names a member every object inherits (\<open>constructor\<close>, \<open>valueOf\<close>, ...) and the
  colour table has no entry of that name, the lookup finds that member instead of the
  token and all three channels are \<open>NaN\<close>.
\<close>

theorem hex_action_never_fails:
  assumes "s \<notin> set action_words" "match_bri s = None" "\<not> truthy (css s)"
  shows "action css stdin l s =
           (let rgb = (if css s = None \<and> s \<in> set object_prototype_names then (None, None, None)
                       else hex2rgb s)
            in (map (\<lambda>lid. Request (Client_rgb lid (fst rgb) (fst (snd rgb)) (snd (snd rgb)))) l,
                Return))"
proof (cases "css s")
  case None
  then show ?thesis using assms(1,2)
    by (simp add: action_def action_words_def css_lookup_def hex2rgb_arg_def todec_undefined
        split: prod.splits)
next
  case (Some v)
  then have "v = []" using assms(3) by (simp add: truthy_def)
  then show ?thesis using Some assms(1,2)
    by (simp add: action_def action_words_def css_lookup_def hex2rgb_arg_def split: prod.splits)
qed

theorem hex_action_never_fails_witness:
  "''12345g'' \<notin> set action_words \<and> match_bri ''12345g'' = None \<and>
   action (\<lambda>n. None) (Inl ''EAGAIN'') [''4'', ''5''] ''12345g''
     = ([Request (Client_rgb ''4'' (Some 18) (Some 52) (Some 5)),
         Request (Client_rgb ''5'' (Some 18) (Some 52) (Some 5))], Return)"
proof -
  have a: "''12345g'' \<notin> set action_words" by (simp add: action_words_def)
  have b: "match_bri ''12345g'' = None" by code_simp
  have c: "\<not> truthy ((\<lambda>n. None) ''12345g'')" by (simp add: truthy_def)
  have n: "''12345g'' \<notin> set object_prototype_names" by (simp add: object_prototype_names_def)
  have v: "hex2rgb ''12345g'' = (Some 18, Some 52, Some 5)" by code_simp
  show ?thesis
    using a b hex_action_never_fails [OF a b c, of "Inl ''EAGAIN''" "[''4'', ''5'']"]
    by (simp add: v n)
qed

text \<open>
  A token that names an inherited member: the member is found, unless the table has an
  entry of that name, be it an empty one.
\<close>

lemma action_inherited_member:
  "action (\<lambda>n. None) (Inl ''EAGAIN'') [''1''] ''constructor''
     = ([Request (Client_rgb ''1'' None None None)], Return) \<and>
   action (\<lambda>n. None) (Inl ''EAGAIN'') [''1''] ''valueOf''
     = ([Request (Client_rgb ''1'' None None None)], Return) \<and>
   action (\<lambda>n. if n = ''constructor'' then Some [] else None) (Inl ''EAGAIN'') [''1''] ''constructor''
     = ([Request (Client_rgb ''1'' (Some 12) None None)], Return)"
  by code_simp

subsection \<open>Loading the config\<close>

lemma config_path_nonempty: "config_path e s \<noteq> []"
  by (cases "configfile s") (auto simp: config_path_def truthy_def str_of_def defaultconfigfile_def)

lemma load_config_unreadable:
  assumes "read_config e (config_path e s) = Inl msg"
  shows "load_config e s
           = ([Stderr (''failed to read config '' @ config_path e s @ '': '' @ msg)], Inl (Exit 1))"
  using assms config_path_nonempty [of e s]
  by (simp add: load_config_def Let_def truthy_def str_of_def)

text \<open>
  Claim C1. A missing or unreadable config at the default path, with no \<open>-c\<close>, is to be
  passed over in silence. The script does not do that: \<open>configfile\<close> is set to the
  default path before the file is read, so the test in the \<open>catch\<close> always holds. Every
  run without \<open>-c\<close> whose default config cannot be read writes the failure to standard
  error and exits with code 1, whatever the command.
\<close>

theorem missing_default_config_is_fatal:
  assumes "getopt_loop e opts st0 = (es, Inr s)" "configfile s = None"
      "read_config e (defaultconfigfile e) = Inl msg"
  shows "main e opts args =
           (es @ [Stderr (''failed to read config '' @ defaultconfigfile e @ '': '' @ msg)], Exit 1)"
proof -
  have p: "config_path e s = defaultconfigfile e"
    using assms(2) by (simp add: config_path_def truthy_def)
  show ?thesis using assms(1) load_config_unreadable [of e s msg] assms(3) p
    by (simp add: main_def)
qed

theorem missing_default_config_is_fatal_witness:
  "getopt_loop env_first_run [] st0 = ([], Inr st0) \<and> configfile st0 = None \<and>
   main env_first_run [] [''help'']
     = ([Stderr ''failed to read config /home/u/.hue.json: ENOENT: no such file or directory''],
        Exit 1)"
proof -
  have a: "getopt_loop env_first_run [] st0 = ([], Inr st0)" by simp
  have b: "configfile st0 = None" by (simp add: st0_def)
  have c: "read_config env_first_run (defaultconfigfile env_first_run)
             = Inl ''ENOENT: no such file or directory''"
    by (simp add: env_first_run_def)
  show ?thesis using a b missing_default_config_is_fatal [OF a b c, of "[''help'']"]
    by (simp add: defaultconfigfile_def env_first_run_def)
qed

subsection \<open>Registering over an existing config\<close>

lemma getopt_loop_no_io: "getopt_loop e opts s = (es, r) \<Longrightarrow> list_all (\<lambda>ev. \<not> is_io ev) es"
proof (induction e opts s arbitrary: es r rule: getopt_loop.induct)
  case (6 e os s)
  then show ?case by (cases "getopt_loop e os s") (auto simp: is_io_def)
qed (auto simp: is_io_def)

lemma load_config_path:
  "load_config e s = (es, Inr s') \<Longrightarrow> configfile s' = Some (config_path e s) \<and> es = []"
  by (auto simp: load_config_def Let_def split: sum.splits if_splits)

lemma load_config_exit:
  "load_config e s = (es, Inl x) \<Longrightarrow> x = Exit 1 \<and> list_all (\<lambda>ev. \<not> is_io ev) es"
  by (auto simp: load_config_def Let_def is_io_def split: sum.splits if_splits)

text \<open>
  Claim C8. When the options are read through and a file exists at the config path, the
  register command ends the run with exit code 1, and up to there the script has created
  no client, sent no request and written no file. (With \<open>-u\<close> the import of the update
  checker has been started by then; its callback cannot run before the exit.)
\<close>

theorem register_refuses_existing_config:
  assumes "arg args 0 = Some ''register''"
      and "getopt_loop e opts st0 = (es, Inr s)"
      and "is_file e (config_path e s)"
  shows "snd (main e opts args) = Exit 1 \<and> list_all (\<lambda>ev. \<not> is_io ev) (fst (main e opts args))"
proof -
  have es: "list_all (\<lambda>ev. \<not> is_io ev) es" using getopt_loop_no_io [OF assms(2)] .
  obtain es2 r where l: "load_config e s = (es2, r)" by (cases "load_config e s")
  show ?thesis
  proof (cases r)
    case (Inl x)
    then show ?thesis using l load_config_exit [of e s es2 x] assms(2) es by (simp add: main_def)
  next
    case (Inr s2)
    then have "configfile s2 = Some (config_path e s)" "es2 = []" using l load_config_path by blast+
    then show ?thesis using l Inr assms es
      by (simp add: main_def command_def is_io_def)
  qed
qed

theorem register_refuses_existing_config_witness:
  "arg [''register''] 0 = Some ''register'' \<and>
   getopt_loop env_registered [Opt_H ''10.0.0.9''] st0
     = ([], Inr (st0\<lparr>cfg := (cfg st0)\<lparr>host := Some ''10.0.0.9''\<rparr>\<rparr>)) \<and>
   is_file env_registered (config_path env_registered (st0\<lparr>cfg := (cfg st0)\<lparr>host := Some ''10.0.0.9''\<rparr>\<rparr>)) \<and>
   snd (main env_registered [Opt_H ''10.0.0.9''] [''register'']) = Exit 1 \<and>
   list_all (\<lambda>ev. \<not> is_io ev) (fst (main env_registered [Opt_H ''10.0.0.9''] [''register'']))"
proof -
  have a: "arg [''register''] 0 = Some ''register''" by (simp add: arg_def)
  have b: "getopt_loop env_registered [Opt_H ''10.0.0.9''] st0
     = ([], Inr (st0\<lparr>cfg := (cfg st0)\<lparr>host := Some ''10.0.0.9''\<rparr>\<rparr>))" by simp
  have c: "is_file env_registered
             (config_path env_registered (st0\<lparr>cfg := (cfg st0)\<lparr>host := Some ''10.0.0.9''\<rparr>\<rparr>))"
    by (simp add: env_registered_def config_path_def st0_def truthy_def defaultconfigfile_def)
  show ?thesis using a b c register_refuses_existing_config [OF a b c] by simp
qed

end
